theory Spec2Isabelle
  imports Complex_Main "HOL-Library.AList"
begin

section \<open>Data model of \<open>mexc_futures_bot.py\<close>\<close>

text \<open>
  Python floats are idealised as \<^typ>\<open>real\<close>: rounding, infinities and NaN are outside
  the model. A \<open>datetime\<close> is the number of seconds since some fixed origin, so that
  \<open>(a - b).total_seconds()\<close> is the difference \<open>a - b\<close>. \<open>datetime.now()\<close> is a
  parameter of every operation that reads the clock.
\<close>

type_synonym timestamp = real

text \<open>
  One entry of the ticker payload as \<open>float(ticker_data.get(key, 0))\<close> sees it: the key
  is absent (the default \<open>0\<close> is used), the value cannot be converted (\<open>float\<close> raises,
  and the \<open>except\<close> clause of \<open>process_ticker\<close> ends the call), or it is a number.
\<close>

datatype jfield = Missing | Malformed | Number real

record ticker_data =
  td_symbol :: "string option"
  lastPrice :: jfield
  amount24 :: jfield
  volume24 :: jfield

text \<open>The values of the dictionaries \<open>LAST_PRICES\<close> and \<open>MAX_CHANGES\<close>.\<close>

record last_price =
  lp_price :: real
  lp_time :: timestamp

record max_change =
  max_pct :: real
  mc_time :: timestamp

text \<open>
  The global state. \<open>SUBSCRIBERS\<close> is a Python set; the list is \<open>list(SUBSCRIBERS)\<close>
  in the order the dispatcher iterates over it. \<open>LAST_PRICES\<close> is the one dictionary the
  program iterates over, so it is an association list (insertion order, updated in place
  by \<^const>\<open>AList.update\<close>); the other dictionaries are maps.
\<close>

record bot_state =
  SUBSCRIBERS :: "int list"
  ALERT_MODE :: "int \<rightharpoonup> int"
  MUTED_COINS :: "int \<rightharpoonup> string set"
  LAST_PRICES :: "(string \<times> last_price) list"
  BASE_PRICES :: "string \<rightharpoonup> real"
  ALERTED_SYMBOLS :: "string \<rightharpoonup> timestamp"
  MAX_CHANGES :: "string \<rightharpoonup> max_change"
  LAST_SIGNIFICANT_CHANGE :: "string \<rightharpoonup> timestamp"

definition PUMP_THRESHOLD :: real where "PUMP_THRESHOLD = 3.0"
definition DUMP_THRESHOLD :: real where "DUMP_THRESHOLD = - 3.0"
definition MODERATE_MAX :: real where "MODERATE_MAX = 5.0"
definition EXTREME_THRESHOLD :: real where "EXTREME_THRESHOLD = 10.0"
definition MIN_VOL_THRESHOLD :: real where "MIN_VOL_THRESHOLD = 100000"

section \<open>The alert message\<close>

text \<open>
  \<open>fmt_alert\<close> renders a text; the model keeps what the text is made of. The branch on
  \<open>abs_change >= EXTREME_THRESHOLD\<close> chooses the banner, the triple icon and the bold
  size tag: that branch is the severity of the alert. \<open>green\<close> is the colour mark
  (\<open>change_pct >= 0\<close>).
\<close>

datatype severity = MODERATE | EXTREME

record alert =
  al_symbol :: string
  old_price :: real
  new_price :: real
  change_pct :: real
  al_severity :: severity
  green :: bool

definition fmt_alert :: "string \<Rightarrow> real \<Rightarrow> real \<Rightarrow> real \<Rightarrow> alert" where
  "fmt_alert symbol old new pct =
     (let abs_change = \<bar>pct\<bar> in
      \<lparr>al_symbol = symbol, old_price = old, new_price = new, change_pct = pct,
       al_severity = (if abs_change \<ge> EXTREME_THRESHOLD then EXTREME else MODERATE),
       green = (pct \<ge> 0)\<rparr>)"

section \<open>\<open>process_ticker\<close>\<close>

text \<open>\<open>float(ticker_data.get(key, 0))\<close>; \<open>None\<close> is the exception of \<open>float\<close>.\<close>

definition get_float :: "jfield \<Rightarrow> real option" where
  "get_float f = (case f of Missing \<Rightarrow> Some 0 | Malformed \<Rightarrow> None | Number x \<Rightarrow> Some x)"

definition current_price_of :: "ticker_data \<Rightarrow> real option" where
  "current_price_of td = get_float (lastPrice td)"

text \<open>
  \<open>volume_usdt\<close>: \<open>amount24\<close>, and \<open>volume24 * current_price\<close> when that is zero.
  \<open>volume24\<close> is only read in the fallback.
\<close>

definition volume_usdt_of :: "ticker_data \<Rightarrow> real option" where
  "volume_usdt_of td =
     (case get_float (lastPrice td) of None \<Rightarrow> None
      | Some current_price \<Rightarrow>
     (case get_float (amount24 td) of None \<Rightarrow> None
      | Some volume_usdt \<Rightarrow>
        if volume_usdt = 0
        then (case get_float (volume24 td) of None \<Rightarrow> None
              | Some volume_coin \<Rightarrow> Some (volume_coin * current_price))
        else Some volume_usdt))"

text \<open>The extremum tracker (the block under \<open># track max change\<close>).\<close>

definition track_max :: "string \<Rightarrow> real \<Rightarrow> timestamp \<Rightarrow> bot_state \<Rightarrow> bot_state" where
  "track_max symbol price_change now st =
     (case MAX_CHANGES st symbol of
        None \<Rightarrow> st\<lparr>MAX_CHANGES := (MAX_CHANGES st)(symbol \<mapsto> \<lparr>max_pct = price_change, mc_time = now\<rparr>)\<rparr>
      | Some m \<Rightarrow>
          if \<bar>price_change\<bar> > \<bar>max_pct m\<bar>
          then st\<lparr>MAX_CHANGES := (MAX_CHANGES st)(symbol \<mapsto> \<lparr>max_pct = price_change, mc_time = now\<rparr>),
                  LAST_SIGNIFICANT_CHANGE := (LAST_SIGNIFICANT_CHANGE st)(symbol \<mapsto> now)\<rparr>
          else st)"

text \<open>The flag \<open>should_reset_base\<close>.\<close>

definition should_reset_base :: "string \<Rightarrow> real \<Rightarrow> timestamp \<Rightarrow> bot_state \<Rightarrow> bool" where
  "should_reset_base symbol abs_change now st =
     (if abs_change < 1.5 then True
      else (case LAST_SIGNIFICANT_CHANGE st symbol of
              None \<Rightarrow> False
            | Some t \<Rightarrow> now - t > 50))"

text \<open>
  The two assignments \<open>BASE_PRICES[symbol] = current_price\<close> and
  \<open>MAX_CHANGES[symbol] = {"max_pct": 0.0, "time": now}\<close>, which the source writes twice:
  under \<open>should_reset_base\<close> and after an extreme alert.
\<close>

definition reset_base :: "string \<Rightarrow> real \<Rightarrow> timestamp \<Rightarrow> bot_state \<Rightarrow> bot_state" where
  "reset_base symbol current_price now st =
     st\<lparr>BASE_PRICES := (BASE_PRICES st)(symbol \<mapsto> current_price),
        MAX_CHANGES := (MAX_CHANGES st)(symbol \<mapsto> \<lparr>max_pct = 0.0, mc_time = now\<rparr>)\<rparr>"

text \<open>The recipients of \<open>bot.send_message\<close>: the channel or a private chat.\<close>

datatype recipient = Channel string | Chat int

text \<open>
  The body of the loop over \<open>list(SUBSCRIBERS)\<close>: the three \<open>continue\<close> statements.
  \<open>ALERT_MODE.get(chat_id, 1)\<close> is the mode.
\<close>

definition skips :: "bot_state \<Rightarrow> string \<Rightarrow> real \<Rightarrow> int \<Rightarrow> bool" where
  "skips st symbol abs_change chat_id =
     (if (case MUTED_COINS st chat_id of None \<Rightarrow> False | Some muted \<Rightarrow> symbol \<in> muted) then True
      else
        let mode = (case ALERT_MODE st chat_id of None \<Rightarrow> 1 | Some m \<Rightarrow> m) in
        if mode = 2 \<and> \<not> (PUMP_THRESHOLD \<le> abs_change \<and> abs_change \<le> MODERATE_MAX) then True
        else if mode = 3 \<and> abs_change < EXTREME_THRESHOLD then True
        else False)"

fun subscriber_tasks :: "bot_state \<Rightarrow> string \<Rightarrow> real \<Rightarrow> alert \<Rightarrow> int list \<Rightarrow> (recipient \<times> alert) list" where
  "subscriber_tasks st symbol abs_change msg [] = []"
| "subscriber_tasks st symbol abs_change msg (chat_id # rest) =
     (if skips st symbol abs_change chat_id then subscriber_tasks st symbol abs_change msg rest
      else (Chat chat_id, msg) # subscriber_tasks st symbol abs_change msg rest)"

text \<open>\<open>if CHANNEL_ID:\<close> holds for a string that is set and not empty.\<close>

definition channel_tasks :: "string option \<Rightarrow> alert \<Rightarrow> (recipient \<times> alert) list" where
  "channel_tasks CHANNEL_ID msg =
     (case CHANNEL_ID of None \<Rightarrow> [] | Some c \<Rightarrow> if c = [] then [] else [(Channel c, msg)])"

text \<open>
  What one call of \<open>process_ticker\<close> leaves behind: the global state, the alert that was
  formatted and logged (the \<open>PUMP\<close>/\<open>DUMP\<close> line), and the \<open>tasks\<close> handed to
  \<open>asyncio.gather\<close>, in order. Failed sends are swallowed by \<open>return_exceptions=True\<close>.
\<close>

record ticker_result =
  state_after :: bot_state
  emitted :: "alert option"
  sent :: "(recipient \<times> alert) list"

definition quiet :: "bot_state \<Rightarrow> ticker_result" where
  "quiet st = \<lparr>state_after = st, emitted = None, sent = []\<rparr>"

text \<open>
  \<open>process_ticker\<close>. Every \<open>return\<close> and every exception caught by the \<open>except\<close> clause
  ends the call with the state as it is at that point: a symbol that is missing or empty,
  a field \<open>float\<close> rejects, and the division by a zero base price (\<open>ZeroDivisionError\<close>,
  raised after \<open>LAST_PRICES\<close> was written).
\<close>

definition process_ticker :: "string option \<Rightarrow> timestamp \<Rightarrow> ticker_data \<Rightarrow> bot_state \<Rightarrow> ticker_result" where
  "process_ticker CHANNEL_ID now td st =
     (case td_symbol td of None \<Rightarrow> quiet st
      | Some symbol \<Rightarrow>
     if symbol = [] then quiet st else
     (case current_price_of td of None \<Rightarrow> quiet st
      | Some current_price \<Rightarrow>
     (case volume_usdt_of td of None \<Rightarrow> quiet st
      | Some volume_usdt \<Rightarrow>
     if current_price \<le> 0 \<or> volume_usdt < MIN_VOL_THRESHOLD then quiet st else
     let st1 = st\<lparr>LAST_PRICES :=
                  AList.update symbol \<lparr>lp_price = current_price, lp_time = now\<rparr> (LAST_PRICES st)\<rparr> in
     (case BASE_PRICES st1 symbol of
        None \<Rightarrow> quiet (st1\<lparr>BASE_PRICES := (BASE_PRICES st1)(symbol \<mapsto> current_price)\<rparr>)
      | Some base_price \<Rightarrow>
     if base_price = 0 then quiet st1 else
     let price_change = (current_price - base_price) / base_price * 100;
         abs_change = \<bar>price_change\<bar>;
         st2 = track_max symbol price_change now st1;
         st3 = (if should_reset_base symbol abs_change now st2
                then reset_base symbol current_price now st2 else st2)
     in
     if \<not> (price_change \<ge> PUMP_THRESHOLD \<or> price_change \<le> DUMP_THRESHOLD) then quiet st3 else
     let st4 = st3\<lparr>ALERTED_SYMBOLS := (ALERTED_SYMBOLS st3)(symbol \<mapsto> now)\<rparr>;
         msg = fmt_alert symbol base_price current_price price_change;
         tasks = channel_tasks CHANNEL_ID msg
                 @ subscriber_tasks st4 symbol abs_change msg (SUBSCRIBERS st4)
     in
     \<lparr>state_after = (if tasks \<noteq> [] \<and> abs_change \<ge> EXTREME_THRESHOLD
                      then reset_base symbol current_price now st4 else st4),
      emitted = Some msg,
      sent = tasks\<rparr>))))"

text \<open>The globals as the module initialises them: every set and dictionary empty.\<close>

definition initial_state :: bot_state where
  "initial_state =
     \<lparr>SUBSCRIBERS = [], ALERT_MODE = Map.empty, MUTED_COINS = Map.empty, LAST_PRICES = [],
      BASE_PRICES = Map.empty, ALERTED_SYMBOLS = Map.empty, MAX_CHANGES = Map.empty,
      LAST_SIGNIFICANT_CHANGE = Map.empty\<rparr>"

section \<open>Reconnection of \<open>websocket_stream\<close>\<close>

text \<open>
  One pass of the \<open>while True\<close> loop, as far as \<open>reconnect_delay\<close> is concerned: an
  exception before \<open>websockets.connect\<close> has succeeded; a connection (which sets the delay
  to 5) that later ends in an exception; a connection whose receive loop ends without one
  (the server closed normally: no \<open>except\<close>, no sleep).
\<close>

datatype attempt = ConnectFailed | ConnectedThenError | ConnectedThenClosed

text \<open>
  The loop runs forever; its model consumes the outcomes of the passes the environment
  has produced so far and returns the \<open>asyncio.sleep(reconnect_delay)\<close> calls in order.
\<close>

fun reconnect_loop :: "int \<Rightarrow> attempt list \<Rightarrow> int list" where
  "reconnect_loop reconnect_delay [] = []"
| "reconnect_loop reconnect_delay (ConnectFailed # rest) =
     reconnect_delay # reconnect_loop (min (reconnect_delay * 2) 60) rest"
| "reconnect_loop reconnect_delay (ConnectedThenError # rest) =
     5 # reconnect_loop (min (5 * 2) 60) rest"
| "reconnect_loop reconnect_delay (ConnectedThenClosed # rest) =
     reconnect_loop 5 rest"

definition websocket_stream :: "attempt list \<Rightarrow> int list" where
  "websocket_stream attempts = reconnect_loop 5 attempts"

section \<open>The backup job and the subscribe command\<close>

text \<open>
  \<open>job_reset_base_prices\<close>: the loop over \<open>list(LAST_PRICES.items())\<close>. A \<open>datetime\<close> is
  never falsy, so \<open>not last_alert\<close> is \<open>last_alert is None\<close>.
\<close>

fun reset_loop :: "timestamp \<Rightarrow> (string \<rightharpoonup> timestamp) \<Rightarrow> (string \<times> last_price) list
    \<Rightarrow> (string \<rightharpoonup> real) \<Rightarrow> (string \<rightharpoonup> real)" where
  "reset_loop now alerted [] base = base"
| "reset_loop now alerted ((symbol, info) # rest) base =
     (let last_price = lp_price info;
          last_alert = alerted symbol
      in if (case last_alert of None \<Rightarrow> True | Some t \<Rightarrow> now - t > 300)
         then reset_loop now alerted rest (base(symbol \<mapsto> last_price))
         else reset_loop now alerted rest base)"

definition job_reset_base_prices :: "timestamp \<Rightarrow> bot_state \<Rightarrow> bot_state" where
  "job_reset_base_prices now st =
     st\<lparr>BASE_PRICES := reset_loop now (ALERTED_SYMBOLS st) (LAST_PRICES st) (BASE_PRICES st)\<rparr>"

text \<open>
  The decorator \<open>admin_only\<close>: with no \<open>ADMIN_IDS\<close> configured every user passes;
  otherwise a user outside \<open>ADMIN_IDS\<close> gets a refusal and the command does not run.
\<close>

definition admin_only :: "int set \<Rightarrow> int \<Rightarrow> (bot_state \<Rightarrow> bot_state) \<Rightarrow> bot_state \<Rightarrow> bot_state" where
  "admin_only ADMIN_IDS user_id func st =
     (if ADMIN_IDS = {} then func st
      else if user_id \<notin> ADMIN_IDS then st
      else func st)"

text \<open>\<open>cmd_subscribe\<close>: \<open>SUBSCRIBERS.add(chat_id)\<close> and nothing else.\<close>

definition cmd_subscribe :: "int set \<Rightarrow> int \<Rightarrow> int \<Rightarrow> bot_state \<Rightarrow> bot_state" where
  "cmd_subscribe ADMIN_IDS user_id chat_id st =
     admin_only ADMIN_IDS user_id
       (\<lambda>s. s\<lparr>SUBSCRIBERS := List.insert chat_id (SUBSCRIBERS s)\<rparr>) st"

section \<open>Evaluation rules and the shape of a tracked sample\<close>

lemmas thresholds = PUMP_THRESHOLD_def DUMP_THRESHOLD_def MODERATE_MAX_def EXTREME_THRESHOLD_def MIN_VOL_THRESHOLD_def

lemmas model_defs = process_ticker_def quiet_def current_price_of_def volume_usdt_of_def
  get_float_def track_max_def should_reset_base_def reset_base_def skips_def
  channel_tasks_def fmt_alert_def initial_state_def thresholds

text \<open>
  A sample is valid when it has a symbol, its fields convert, its price is positive and
  its turnover reaches \<open>MIN_VOL_THRESHOLD\<close>; the instrument is tracked when it has a
  base price (which the program only ever sets to a positive price, so the division is
  defined). For such a sample \<open>process_ticker\<close> runs its main path.
\<close>

lemma process_ticker_tracking:
  assumes "td_symbol td = Some symbol" "symbol \<noteq> []"
    and "current_price_of td = Some price" "volume_usdt_of td = Some turnover"
    and "0 < price" "MIN_VOL_THRESHOLD \<le> turnover"
    and "BASE_PRICES st symbol = Some base" "base \<noteq> 0"
  shows "process_ticker CHANNEL_ID now td st =
     (let st1 = st\<lparr>LAST_PRICES :=
                  AList.update symbol \<lparr>lp_price = price, lp_time = now\<rparr> (LAST_PRICES st)\<rparr>;
         price_change = (price - base) / base * 100;
         abs_change = \<bar>price_change\<bar>;
         st2 = track_max symbol price_change now st1;
         st3 = (if should_reset_base symbol abs_change now st2
                then reset_base symbol price now st2 else st2)
     in
     if \<not> (price_change \<ge> PUMP_THRESHOLD \<or> price_change \<le> DUMP_THRESHOLD) then quiet st3 else
     let st4 = st3\<lparr>ALERTED_SYMBOLS := (ALERTED_SYMBOLS st3)(symbol \<mapsto> now)\<rparr>;
         msg = fmt_alert symbol base price price_change;
         tasks = channel_tasks CHANNEL_ID msg
                 @ subscriber_tasks st4 symbol abs_change msg (SUBSCRIBERS st4)
     in
     \<lparr>state_after = (if tasks \<noteq> [] \<and> abs_change \<ge> EXTREME_THRESHOLD
                      then reset_base symbol price now st4 else st4),
      emitted = Some msg,
      sent = tasks\<rparr>)"
  using assms unfolding process_ticker_def by (simp add: not_le not_less)

lemma emitted_tracking:
  assumes "td_symbol td = Some symbol" "symbol \<noteq> []"
    and "current_price_of td = Some price" "volume_usdt_of td = Some turnover"
    and "0 < price" "MIN_VOL_THRESHOLD \<le> turnover"
    and "BASE_PRICES st symbol = Some base" "base \<noteq> 0"
  shows "emitted (process_ticker CHANNEL_ID now td st) =
     (if (price - base) / base * 100 \<ge> 3 \<or> (price - base) / base * 100 \<le> - 3
      then Some (fmt_alert symbol base price ((price - base) / base * 100)) else None)"
  unfolding process_ticker_tracking[OF assms] by (simp add: Let_def quiet_def thresholds)

lemma alerted_tracking:
  assumes "td_symbol td = Some symbol" "symbol \<noteq> []"
    and "current_price_of td = Some price" "volume_usdt_of td = Some turnover"
    and "0 < price" "MIN_VOL_THRESHOLD \<le> turnover"
    and "BASE_PRICES st symbol = Some base" "base \<noteq> 0"
  shows "ALERTED_SYMBOLS (state_after (process_ticker CHANNEL_ID now td st)) =
     (if (price - base) / base * 100 \<ge> 3 \<or> (price - base) / base * 100 \<le> - 3
      then (ALERTED_SYMBOLS st)(symbol \<mapsto> now) else ALERTED_SYMBOLS st)"
  unfolding process_ticker_tracking[OF assms]
  by (simp add: Let_def quiet_def thresholds track_max_def reset_base_def split: option.splits)

section \<open>The alert decision\<close>

text \<open>
  Claim C1. For a valid sample of a tracked instrument, an alert is emitted exactly when
  \<open>changePct \<ge> 3\<close> or \<open>changePct \<le> -3\<close>; the emitted alert is \<open>EXTREME\<close> when
  \<open>|changePct| \<ge> 10\<close> and \<open>MODERATE\<close> otherwise, and the time of the alert is recorded
  in \<open>ALERTED_SYMBOLS\<close>. The decision reads nothing but the price and the base price:
  whatever the state holds about earlier alerts, the same sample emits the same alert,
  so there is no cooldown and no de-duplication.
\<close>

theorem alert_decision:
  assumes "td_symbol td = Some symbol" "symbol \<noteq> []"
    and "current_price_of td = Some price" "volume_usdt_of td = Some turnover"
    and "0 < price" "100000 \<le> turnover"
    and "BASE_PRICES st symbol = Some base" "base \<noteq> 0"
  shows "let changePct = (price - base) / base * 100;
             r = process_ticker CHANNEL_ID now td st
         in (emitted r \<noteq> None \<longleftrightarrow> changePct \<ge> 3 \<or> changePct \<le> - 3)
          \<and> (changePct \<ge> 3 \<or> changePct \<le> - 3 \<longrightarrow>
                 emitted r = Some \<lparr>al_symbol = symbol, old_price = base, new_price = price,
                    change_pct = changePct,
                    al_severity = (if \<bar>changePct\<bar> \<ge> 10 then EXTREME else MODERATE),
                    green = (changePct \<ge> 0)\<rparr>
               \<and> ALERTED_SYMBOLS (state_after r) symbol = Some now)
          \<and> (\<forall>alerted. emitted (process_ticker CHANNEL_ID now td (st\<lparr>ALERTED_SYMBOLS := alerted\<rparr>))
                 = emitted r)"
proof -
  have vol: "MIN_VOL_THRESHOLD \<le> turnover"
    using assms(6) by (simp add: MIN_VOL_THRESHOLD_def)
  note hyps = assms(1-5) vol
  have e: "emitted (process_ticker CHANNEL_ID now td st') =
     (if (price - base) / base * 100 \<ge> 3 \<or> (price - base) / base * 100 \<le> - 3
      then Some (fmt_alert symbol base price ((price - base) / base * 100)) else None)"
    if "BASE_PRICES st' symbol = Some base" for st'
    using emitted_tracking[OF hyps that assms(8)] .
  have a: "ALERTED_SYMBOLS (state_after (process_ticker CHANNEL_ID now td st)) =
     (if (price - base) / base * 100 \<ge> 3 \<or> (price - base) / base * 100 \<le> - 3
      then (ALERTED_SYMBOLS st)(symbol \<mapsto> now) else ALERTED_SYMBOLS st)"
    using alerted_tracking[OF hyps assms(7,8)] .
  show ?thesis
    unfolding Let_def
    by (simp add: e assms(7) a fmt_alert_def thresholds)
qed

theorem alert_decision_witness:
  "let st = initial_state\<lparr>BASE_PRICES := [''BTC_USDT'' \<mapsto> 100]\<rparr>;
       td = \<lparr>td_symbol = Some ''BTC_USDT'', lastPrice = Number 103.5,
             amount24 = Number 250000, volume24 = Missing\<rparr>;
       r = process_ticker None 7 td st
   in td_symbol td = Some ''BTC_USDT'' \<and> ''BTC_USDT'' \<noteq> []
    \<and> current_price_of td = Some 103.5 \<and> volume_usdt_of td = Some 250000
    \<and> (0::real) < 103.5 \<and> (100000::real) \<le> 250000
    \<and> BASE_PRICES st ''BTC_USDT'' = Some 100 \<and> (100::real) \<noteq> 0
    \<and> emitted r = Some \<lparr>al_symbol = ''BTC_USDT'', old_price = 100, new_price = 103.5,
                         change_pct = 3.5, al_severity = MODERATE, green = True\<rparr>
    \<and> ALERTED_SYMBOLS (state_after r) ''BTC_USDT'' = Some 7"
  using alert_decision[of "\<lparr>td_symbol = Some ''BTC_USDT'', lastPrice = Number 103.5,
             amount24 = Number 250000, volume24 = Missing\<rparr>" "''BTC_USDT''" "103.5" 250000
          "initial_state\<lparr>BASE_PRICES := [''BTC_USDT'' \<mapsto> 100]\<rparr>" 100 None 7]
  by (simp add: Let_def model_defs)

section \<open>Rejected samples and the first sample\<close>

text \<open>
  Claim C6. A sample whose price is not positive or whose turnover is below 100000 is
  rejected: the call returns the state it was given, with no alert and nothing sent.
\<close>

theorem rejected_sample_no_effect:
  assumes "current_price_of td = Some price" "volume_usdt_of td = Some turnover"
    and "price \<le> 0 \<or> turnover < 100000"
  shows "process_ticker CHANNEL_ID now td st = \<lparr>state_after = st, emitted = None, sent = []\<rparr>"
  using assms unfolding process_ticker_def
  by (auto simp: quiet_def MIN_VOL_THRESHOLD_def split: option.splits)

theorem rejected_sample_no_effect_witness:
  "let td = \<lparr>td_symbol = Some ''BTC_USDT'', lastPrice = Number 103.5,
             amount24 = Number 0, volume24 = Number 900\<rparr>;
       st = initial_state\<lparr>BASE_PRICES := [''BTC_USDT'' \<mapsto> 100]\<rparr>
   in current_price_of td = Some 103.5 \<and> volume_usdt_of td = Some 93150
    \<and> ((103.5::real) \<le> 0 \<or> (93150::real) < 100000)
    \<and> process_ticker (Some ''@channel'') 7 td st = \<lparr>state_after = st, emitted = None, sent = []\<rparr>"
  using rejected_sample_no_effect[of "\<lparr>td_symbol = Some ''BTC_USDT'', lastPrice = Number 103.5,
             amount24 = Number 0, volume24 = Number 900\<rparr>" "103.5" 93150 "Some ''@channel''" 7
          "initial_state\<lparr>BASE_PRICES := [''BTC_USDT'' \<mapsto> 100]\<rparr>"]
  by (simp add: Let_def current_price_of_def volume_usdt_of_def get_float_def)

text \<open>
  Claim C7. The first valid sample of an instrument without a base price sets the base
  price to the sample's price and produces no alert, whatever the price.
\<close>

theorem first_sample_sets_base:
  assumes "td_symbol td = Some symbol" "symbol \<noteq> []"
    and "current_price_of td = Some price" "volume_usdt_of td = Some turnover"
    and "0 < price" "100000 \<le> turnover"
    and "BASE_PRICES st symbol = None"
  shows "let r = process_ticker CHANNEL_ID now td st
         in BASE_PRICES (state_after r) symbol = Some price \<and> emitted r = None \<and> sent r = []"
  using assms unfolding process_ticker_def
  by (simp add: quiet_def MIN_VOL_THRESHOLD_def Let_def not_le not_less)

theorem first_sample_sets_base_witness:
  "let td = \<lparr>td_symbol = Some ''BTC_USDT'', lastPrice = Number 64000,
             amount24 = Number 250000, volume24 = Missing\<rparr>;
       r = process_ticker (Some ''@channel'') 7 td initial_state
   in td_symbol td = Some ''BTC_USDT'' \<and> ''BTC_USDT'' \<noteq> []
    \<and> current_price_of td = Some 64000 \<and> volume_usdt_of td = Some 250000
    \<and> (0::real) < 64000 \<and> (100000::real) \<le> 250000
    \<and> BASE_PRICES initial_state ''BTC_USDT'' = None
    \<and> BASE_PRICES (state_after r) ''BTC_USDT'' = Some 64000 \<and> emitted r = None \<and> sent r = []"
  using first_sample_sets_base[of "\<lparr>td_symbol = Some ''BTC_USDT'', lastPrice = Number 64000,
             amount24 = Number 250000, volume24 = Missing\<rparr>" "''BTC_USDT''" 64000 250000
          initial_state "Some ''@channel''" 7]
  by (simp add: Let_def current_price_of_def volume_usdt_of_def get_float_def initial_state_def)

section \<open>Dispatch to subscribers\<close>

text \<open>
  The loop over the subscribers is a filter, and it reads only \<open>MUTED_COINS\<close> and
  \<open>ALERT_MODE\<close>, which \<open>process_ticker\<close> never writes.
\<close>

lemma subscriber_tasks_filter:
  "subscriber_tasks st symbol a msg cs =
     map (\<lambda>c. (Chat c, msg)) (filter (\<lambda>c. \<not> skips st symbol a c) cs)"
  by (induction cs) simp_all

lemma track_max_frame:
  "SUBSCRIBERS (track_max symbol pc now st) = SUBSCRIBERS st"
  "ALERT_MODE (track_max symbol pc now st) = ALERT_MODE st"
  "MUTED_COINS (track_max symbol pc now st) = MUTED_COINS st"
  "BASE_PRICES (track_max symbol pc now st) = BASE_PRICES st"
  "ALERTED_SYMBOLS (track_max symbol pc now st) = ALERTED_SYMBOLS st"
  "LAST_PRICES (track_max symbol pc now st) = LAST_PRICES st"
  by (simp_all add: track_max_def split: option.splits)

lemma reset_base_frame:
  "SUBSCRIBERS (reset_base symbol p now st) = SUBSCRIBERS st"
  "ALERT_MODE (reset_base symbol p now st) = ALERT_MODE st"
  "MUTED_COINS (reset_base symbol p now st) = MUTED_COINS st"
  "ALERTED_SYMBOLS (reset_base symbol p now st) = ALERTED_SYMBOLS st"
  "LAST_SIGNIFICANT_CHANGE (reset_base symbol p now st) = LAST_SIGNIFICANT_CHANGE st"
  "LAST_PRICES (reset_base symbol p now st) = LAST_PRICES st"
  by (simp_all add: reset_base_def)

lemma skips_frame:
  "skips (st\<lparr>ALERTED_SYMBOLS := x\<rparr>) = skips st"
  "skips (st\<lparr>LAST_PRICES := y\<rparr>) = skips st"
  "skips (track_max symbol pc now st) = skips st"
  "skips (reset_base symbol p now st) = skips st"
  by (simp_all add: skips_def fun_eq_iff track_max_frame reset_base_frame)

lemma sent_tracking:
  assumes "td_symbol td = Some symbol" "symbol \<noteq> []"
    and "current_price_of td = Some price" "volume_usdt_of td = Some turnover"
    and "0 < price" "MIN_VOL_THRESHOLD \<le> turnover"
    and "BASE_PRICES st symbol = Some base" "base \<noteq> 0"
  shows "sent (process_ticker CHANNEL_ID now td st) =
     (if (price - base) / base * 100 \<ge> 3 \<or> (price - base) / base * 100 \<le> - 3
      then channel_tasks CHANNEL_ID (fmt_alert symbol base price ((price - base) / base * 100))
           @ subscriber_tasks st symbol \<bar>(price - base) / base * 100\<bar>
               (fmt_alert symbol base price ((price - base) / base * 100)) (SUBSCRIBERS st)
      else [])"
  unfolding process_ticker_tracking[OF assms]
  by (simp add: Let_def quiet_def thresholds subscriber_tasks_filter skips_frame
        track_max_frame reset_base_frame)

lemma chat_delivered_iff:
  "(Chat c, m) \<in> set (channel_tasks CHANNEL_ID msg @ subscriber_tasks st symbol a msg cs)
   \<longleftrightarrow> m = msg \<and> c \<in> set cs \<and> \<not> skips st symbol a c"
  by (auto simp: subscriber_tasks_filter channel_tasks_def split: option.splits)

text \<open>
  Claim C3. When an alert is dispatched, a subscriber who muted the instrument is skipped
  whatever the mode; a subscriber in mode 2 (moderate only) is skipped unless
  \<open>3 \<le> |changePct| \<le> 5\<close>; a subscriber in mode 3 (extreme only) is skipped when
  \<open>|changePct| < 10\<close>; every other subscriber is sent the message.
\<close>

theorem subscriber_filter:
  assumes "td_symbol td = Some symbol" "symbol \<noteq> []"
    and "current_price_of td = Some price" "volume_usdt_of td = Some turnover"
    and "0 < price" "100000 \<le> turnover"
    and "BASE_PRICES st symbol = Some base" "base \<noteq> 0"
    and "(price - base) / base * 100 \<ge> 3 \<or> (price - base) / base * 100 \<le> - 3"
    and "chat_id \<in> set (SUBSCRIBERS st)"
  shows "let changePct = (price - base) / base * 100;
             r = process_ticker CHANNEL_ID now td st;
             muted = (case MUTED_COINS st chat_id of None \<Rightarrow> False | Some coins \<Rightarrow> symbol \<in> coins);
             mode = (case ALERT_MODE st chat_id of None \<Rightarrow> 1 | Some m \<Rightarrow> m);
             delivered = ((Chat chat_id, fmt_alert symbol base price changePct) \<in> set (sent r))
         in (muted \<longrightarrow> \<not> delivered)
          \<and> (mode = 2 \<and> \<not> (3 \<le> \<bar>changePct\<bar> \<and> \<bar>changePct\<bar> \<le> 5) \<longrightarrow> \<not> delivered)
          \<and> (mode = 3 \<and> \<bar>changePct\<bar> < 10 \<longrightarrow> \<not> delivered)
          \<and> (\<not> muted \<and> \<not> (mode = 2 \<and> \<not> (3 \<le> \<bar>changePct\<bar> \<and> \<bar>changePct\<bar> \<le> 5))
                \<and> \<not> (mode = 3 \<and> \<bar>changePct\<bar> < 10) \<longrightarrow> delivered)"
proof -
  have vol: "MIN_VOL_THRESHOLD \<le> turnover"
    using assms(6) by (simp add: MIN_VOL_THRESHOLD_def)
  define pc where "pc = (price - base) / base * 100"
  have s: "sent (process_ticker CHANNEL_ID now td st) =
      channel_tasks CHANNEL_ID (fmt_alert symbol base price pc)
      @ subscriber_tasks st symbol \<bar>pc\<bar> (fmt_alert symbol base price pc) (SUBSCRIBERS st)"
    using sent_tracking[OF assms(1-5) vol assms(7,8), of CHANNEL_ID now] assms(9)
    by (simp add: pc_def)
  have d: "((Chat chat_id, fmt_alert symbol base price pc) \<in> set (sent (process_ticker CHANNEL_ID now td st)))
      \<longleftrightarrow> \<not> skips st symbol \<bar>pc\<bar> chat_id"
    unfolding s chat_delivered_iff using assms(10) by simp
  have k: "skips st symbol \<bar>pc\<bar> chat_id \<longleftrightarrow>
      (case MUTED_COINS st chat_id of None \<Rightarrow> False | Some coins \<Rightarrow> symbol \<in> coins)
      \<or> ((case ALERT_MODE st chat_id of None \<Rightarrow> 1 | Some m \<Rightarrow> m) = 2 \<and> \<not> (3 \<le> \<bar>pc\<bar> \<and> \<bar>pc\<bar> \<le> 5))
      \<or> ((case ALERT_MODE st chat_id of None \<Rightarrow> 1 | Some m \<Rightarrow> m) = 3 \<and> \<bar>pc\<bar> < 10)"
    unfolding skips_def Let_def thresholds by simp
  show ?thesis
    unfolding Let_def pc_def[symmetric] d k by blast
qed

theorem subscriber_filter_witness:
  "let st = initial_state\<lparr>SUBSCRIBERS := [11, 12, 13], ALERT_MODE := [11 \<mapsto> 2, 12 \<mapsto> 3],
                          MUTED_COINS := [13 \<mapsto> {''BTC_USDT''}],
                          BASE_PRICES := [''BTC_USDT'' \<mapsto> 100]\<rparr>;
       td = \<lparr>td_symbol = Some ''BTC_USDT'', lastPrice = Number 107,
             amount24 = Number 250000, volume24 = Missing\<rparr>;
       r = process_ticker (Some ''@channel'') 7 td st
   in td_symbol td = Some ''BTC_USDT'' \<and> ''BTC_USDT'' \<noteq> []
    \<and> current_price_of td = Some 107 \<and> volume_usdt_of td = Some 250000
    \<and> (0::real) < 107 \<and> (100000::real) \<le> 250000
    \<and> BASE_PRICES st ''BTC_USDT'' = Some 100 \<and> (100::real) \<noteq> 0
    \<and> ((107 - 100) / 100 * 100 \<ge> (3::real) \<or> (107 - 100) / 100 * 100 \<le> (- 3::real))
    \<and> (11::int) \<in> set (SUBSCRIBERS st)
    \<and> (Chat 11, fmt_alert ''BTC_USDT'' 100 107 7) \<notin> set (sent r)"
  using subscriber_filter[of "\<lparr>td_symbol = Some ''BTC_USDT'', lastPrice = Number 107,
             amount24 = Number 250000, volume24 = Missing\<rparr>" "''BTC_USDT''" 107 250000
          "initial_state\<lparr>SUBSCRIBERS := [11, 12, 13], ALERT_MODE := [11 \<mapsto> 2, 12 \<mapsto> 3],
                          MUTED_COINS := [13 \<mapsto> {''BTC_USDT''}],
                          BASE_PRICES := [''BTC_USDT'' \<mapsto> 100]\<rparr>" 100 11 "Some ''@channel''" 7]
  by (simp add: Let_def model_defs)

lemma cmd_subscribe_effect:
  "ADMIN_IDS = {} \<or> user_id \<in> ADMIN_IDS \<Longrightarrow>
   cmd_subscribe ADMIN_IDS user_id chat_id st = st\<lparr>SUBSCRIBERS := List.insert chat_id (SUBSCRIBERS st)\<rparr>"
  by (auto simp: cmd_subscribe_def admin_only_def)

text \<open>
  Claim C10. A subscriber without an entry in \<open>ALERT_MODE\<close> is treated as mode 1 (all):
  the subscriber is sent every dispatched alert, moderate or extreme, unless the
  instrument is muted. Such a subscriber exists as soon as \<open>cmd_subscribe\<close> has run for a
  chat that never chose a mode: the command adds the chat to \<open>SUBSCRIBERS\<close> and leaves
  \<open>ALERT_MODE\<close> as it was.
\<close>

theorem missing_mode_is_all:
  assumes "td_symbol td = Some symbol" "symbol \<noteq> []"
    and "current_price_of td = Some price" "volume_usdt_of td = Some turnover"
    and "0 < price" "100000 \<le> turnover"
    and "BASE_PRICES st symbol = Some base" "base \<noteq> 0"
    and "(price - base) / base * 100 \<ge> 3 \<or> (price - base) / base * 100 \<le> - 3"
    and "chat_id \<in> set (SUBSCRIBERS st)" "ALERT_MODE st chat_id = None"
  shows "((Chat chat_id, fmt_alert symbol base price ((price - base) / base * 100))
            \<in> set (sent (process_ticker CHANNEL_ID now td st))
          \<longleftrightarrow> \<not> (case MUTED_COINS st chat_id of None \<Rightarrow> False | Some coins \<Rightarrow> symbol \<in> coins))
       \<and> (\<forall>ADMIN_IDS user_id st0.
            (ADMIN_IDS = {} \<or> user_id \<in> ADMIN_IDS) \<longrightarrow>
              chat_id \<in> set (SUBSCRIBERS (cmd_subscribe ADMIN_IDS user_id chat_id st0))
            \<and> ALERT_MODE (cmd_subscribe ADMIN_IDS user_id chat_id st0) = ALERT_MODE st0)"
proof -
  have vol: "MIN_VOL_THRESHOLD \<le> turnover"
    using assms(6) by (simp add: MIN_VOL_THRESHOLD_def)
  define pc where "pc = (price - base) / base * 100"
  have s: "sent (process_ticker CHANNEL_ID now td st) =
      channel_tasks CHANNEL_ID (fmt_alert symbol base price pc)
      @ subscriber_tasks st symbol \<bar>pc\<bar> (fmt_alert symbol base price pc) (SUBSCRIBERS st)"
    using sent_tracking[OF assms(1-5) vol assms(7,8), of CHANNEL_ID now] assms(9)
    by (simp add: pc_def)
  have k: "skips st symbol \<bar>pc\<bar> chat_id \<longleftrightarrow>
      (case MUTED_COINS st chat_id of None \<Rightarrow> False | Some coins \<Rightarrow> symbol \<in> coins)"
    unfolding skips_def Let_def using assms(11) by simp
  have d: "((Chat chat_id, fmt_alert symbol base price pc) \<in> set (sent (process_ticker CHANNEL_ID now td st)))
      \<longleftrightarrow> \<not> (case MUTED_COINS st chat_id of None \<Rightarrow> False | Some coins \<Rightarrow> symbol \<in> coins)"
    unfolding s chat_delivered_iff k using assms(10) by simp
  have c: "chat_id \<in> set (SUBSCRIBERS (cmd_subscribe ADMIN_IDS user_id chat_id st0))
            \<and> ALERT_MODE (cmd_subscribe ADMIN_IDS user_id chat_id st0) = ALERT_MODE st0"
    if "ADMIN_IDS = {} \<or> user_id \<in> ADMIN_IDS" for ADMIN_IDS user_id st0
    by (simp add: cmd_subscribe_effect[OF that])
  show ?thesis
    unfolding pc_def[symmetric] using d c by blast
qed

theorem missing_mode_is_all_witness:
  "let st = cmd_subscribe {} 5 42 (initial_state\<lparr>BASE_PRICES := [''BTC_USDT'' \<mapsto> 100]\<rparr>);
       td = \<lparr>td_symbol = Some ''BTC_USDT'', lastPrice = Number 88,
             amount24 = Number 250000, volume24 = Missing\<rparr>;
       r = process_ticker None 7 td st
   in td_symbol td = Some ''BTC_USDT'' \<and> ''BTC_USDT'' \<noteq> []
    \<and> current_price_of td = Some 88 \<and> volume_usdt_of td = Some 250000
    \<and> (0::real) < 88 \<and> (100000::real) \<le> 250000
    \<and> BASE_PRICES st ''BTC_USDT'' = Some 100 \<and> (100::real) \<noteq> 0
    \<and> ((88 - 100) / 100 * 100 \<ge> (3::real) \<or> (88 - 100) / 100 * 100 \<le> (- 3::real))
    \<and> (42::int) \<in> set (SUBSCRIBERS st) \<and> ALERT_MODE st 42 = None
    \<and> (Chat 42, fmt_alert ''BTC_USDT'' 100 88 (- 12)) \<in> set (sent r)"
  using missing_mode_is_all[of "\<lparr>td_symbol = Some ''BTC_USDT'', lastPrice = Number 88,
             amount24 = Number 250000, volume24 = Missing\<rparr>" "''BTC_USDT''" 88 250000
          "cmd_subscribe {} 5 42 (initial_state\<lparr>BASE_PRICES := [''BTC_USDT'' \<mapsto> 100]\<rparr>)" 100 42 None 7]
  by (simp add: Let_def model_defs cmd_subscribe_def admin_only_def)

section \<open>Reconnection backoff\<close>

lemma reconnect_loop_capped:
  "reconnect_loop 60 (replicate k ConnectFailed) = replicate k 60"
  by (induction k) simp_all

lemma replicate_4_plus:
  "replicate (4 + k) x = x # x # x # x # replicate k x"
  by (simp add: numeral_eq_Suc)

lemma reconnect_loop_from_5:
  "reconnect_loop 5 (replicate n ConnectFailed) = take n [5, 10, 20, 40] @ replicate (n - 4) 60"
proof -
  have "n = 0 \<or> n = 1 \<or> n = 2 \<or> n = 3 \<or> (\<exists>k. n = 4 + k)"
    by presburger
  then consider "n = 0" | "n = 1" | "n = 2" | "n = 3" | k where "n = 4 + k"
    by blast
  then show ?thesis
  proof cases
    case 1
    then show ?thesis by simp
  next
    case 2
    then show ?thesis by simp
  next
    case 3
    have "replicate 2 ConnectFailed = [ConnectFailed, ConnectFailed]"
      by (simp add: numeral_eq_Suc)
    then show ?thesis using 3 by simp
  next
    case 4
    have "replicate 3 ConnectFailed = [ConnectFailed, ConnectFailed, ConnectFailed]"
      by (simp add: numeral_eq_Suc)
    then show ?thesis using 4 by simp
  next
    case 5
    show ?thesis
      unfolding 5 replicate_4_plus by (simp add: reconnect_loop_capped)
  qed
qed

lemma reconnect_loop_append_closed:
  "reconnect_loop d (pre @ ConnectedThenClosed # rest) = reconnect_loop d pre @ reconnect_loop 5 rest"
  by (induction d pre rule: reconnect_loop.induct) simp_all

lemma reconnect_loop_append_error:
  "reconnect_loop d (pre @ ConnectedThenError # rest)
     = reconnect_loop d pre @ reconnect_loop 5 (ConnectFailed # rest)"
  by (induction d pre rule: reconnect_loop.induct) simp_all

text \<open>
  Claim C8. After \<open>n\<close> consecutive failures the delays slept are the first \<open>n\<close> terms of
  5, 10, 20, 40, 60, 60, ...: the delay starts at 5, doubles and is capped at 60. A
  successful connection sets the delay back to 5, whatever happened before it: the
  failures that follow it sleep 5, 10, 20, 40, 60, ... again (the first of them being
  the failure of that connection itself, when it ends in an error).
\<close>

theorem backoff_sequence:
  "websocket_stream (replicate n ConnectFailed) = take n [5, 10, 20, 40] @ replicate (n - 4) 60
 \<and> websocket_stream (pre @ ConnectedThenClosed # replicate n ConnectFailed)
     = websocket_stream pre @ take n [5, 10, 20, 40] @ replicate (n - 4) 60
 \<and> websocket_stream (pre @ ConnectedThenError # replicate n ConnectFailed)
     = websocket_stream pre @ take (Suc n) [5, 10, 20, 40] @ replicate (Suc n - 4) 60"
proof -
  have e: "ConnectFailed # replicate n ConnectFailed = replicate (Suc n) ConnectFailed"
    by simp
  show ?thesis
    unfolding websocket_stream_def reconnect_loop_append_closed reconnect_loop_append_error e
      reconnect_loop_from_5 by simp
qed

theorem backoff_sequence_witness:
  "websocket_stream (replicate 7 ConnectFailed) = [5, 10, 20, 40, 60, 60, 60]
 \<and> websocket_stream ([ConnectFailed, ConnectFailed] @ ConnectedThenError # replicate 2 ConnectFailed)
     = [5, 10] @ [5, 10, 20]"
  using backoff_sequence[of 7] backoff_sequence[of 2 "[ConnectFailed, ConnectFailed]"]
  by (simp add: websocket_stream_def numeral_eq_Suc)

section \<open>The backup sweep\<close>

lemma reset_loop_lookup:
  "distinct (map fst items) \<Longrightarrow>
   reset_loop now alerted items base symbol =
     (case map_of items symbol of
        None \<Rightarrow> base symbol
      | Some info \<Rightarrow>
          if (case alerted symbol of None \<Rightarrow> True | Some t \<Rightarrow> now - t > 300)
          then Some (lp_price info) else base symbol)"
proof (induction items arbitrary: base)
  case Nil
  then show ?case by simp
next
  case (Cons item items)
  obtain s info where item: "item = (s, info)" by (cases item)
  from Cons.prems have notin: "s \<notin> fst ` set items" and d: "distinct (map fst items)"
    by (simp_all add: item)
  have none: "map_of items s = None"
    using notin by (simp add: map_of_eq_None_iff)
  note IH = Cons.IH[OF d]
  show ?case
  proof (cases "s = symbol")
    case True
    have none': "map_of items symbol = None"
      using none True by simp
    show ?thesis
      unfolding item True by (simp add: Let_def IH none')
  next
    case False
    then have ne: "symbol \<noteq> s" by blast
    show ?thesis
      unfolding item using False by (simp add: Let_def IH ne split: option.splits)
  qed
qed

text \<open>
  \<open>LAST_PRICES\<close> is a dictionary, so its keys are distinct; \<open>process_ticker\<close>, its only
  writer, keeps them so.
\<close>

lemma process_ticker_keeps_distinct:
  "distinct (map fst (LAST_PRICES st)) \<Longrightarrow>
   distinct (map fst (LAST_PRICES (state_after (process_ticker CHANNEL_ID now td st))))"
  unfolding process_ticker_def
  by (simp add: quiet_def Let_def distinct_update track_max_frame reset_base_frame
        split: option.splits)

text \<open>
  Claim C9. One run of the backup sweep sets the base price of every instrument that
  has an entry in \<open>LAST_PRICES\<close> and whose last alert is absent or more than 300 seconds
  old to the price recorded in \<open>LAST_PRICES\<close>, and leaves every other base price as it
  was.
\<close>

theorem backup_sweep:
  assumes "distinct (map fst (LAST_PRICES st))"
  shows "BASE_PRICES (job_reset_base_prices now st) symbol =
     (case map_of (LAST_PRICES st) symbol of
        None \<Rightarrow> BASE_PRICES st symbol
      | Some info \<Rightarrow>
          if (case ALERTED_SYMBOLS st symbol of None \<Rightarrow> True | Some last_alert \<Rightarrow> now - last_alert > 300)
          then Some (lp_price info) else BASE_PRICES st symbol)"
  by (simp add: job_reset_base_prices_def reset_loop_lookup[OF assms])


theorem backup_sweep_witness:
  "let st = initial_state\<lparr>
         LAST_PRICES := [(''BTC_USDT'', \<lparr>lp_price = 105, lp_time = 990\<rparr>),
                         (''ETH_USDT'', \<lparr>lp_price = 52, lp_time = 995\<rparr>)],
         BASE_PRICES := [''BTC_USDT'' \<mapsto> 100, ''ETH_USDT'' \<mapsto> 50, ''XRP_USDT'' \<mapsto> 2],
         ALERTED_SYMBOLS := [''ETH_USDT'' \<mapsto> 900]\<rparr>
   in distinct (map fst (LAST_PRICES st))
    \<and> BASE_PRICES (job_reset_base_prices 1000 st) ''BTC_USDT'' = Some 105
    \<and> BASE_PRICES (job_reset_base_prices 1000 st) ''ETH_USDT'' = Some 50
    \<and> BASE_PRICES (job_reset_base_prices 1300 st) ''ETH_USDT'' = Some 52
    \<and> BASE_PRICES (job_reset_base_prices 1000 st) ''XRP_USDT'' = Some 2"
  using backup_sweep[of "initial_state\<lparr>
         LAST_PRICES := [(''BTC_USDT'', \<lparr>lp_price = 105, lp_time = 990\<rparr>),
                         (''ETH_USDT'', \<lparr>lp_price = 52, lp_time = 995\<rparr>)],
         BASE_PRICES := [''BTC_USDT'' \<mapsto> 100, ''ETH_USDT'' \<mapsto> 50, ''XRP_USDT'' \<mapsto> 2],
         ALERTED_SYMBOLS := [''ETH_USDT'' \<mapsto> 900]\<rparr>" 1000 "''BTC_USDT''"]
  by (simp add: Let_def initial_state_def job_reset_base_prices_def)

section \<open>The state after a tracked sample\<close>

text \<open>
  The reset flag is computed after the extremum tracker has run, so it sees the
  \<open>LAST_SIGNIFICANT_CHANGE\<close> the tracker has just written: a sample that is a new
  extremum is never stale.
\<close>

lemma should_reset_after_track:
  "should_reset_base symbol a now (track_max symbol pc now st) \<longleftrightarrow>
     a < 1.5 \<or> (\<not> (case MAX_CHANGES st symbol of None \<Rightarrow> False | Some m \<Rightarrow> \<bar>pc\<bar> > \<bar>max_pct m\<bar>)
               \<and> (case LAST_SIGNIFICANT_CHANGE st symbol of None \<Rightarrow> False | Some t \<Rightarrow> now - t > 50))"
  by (simp add: should_reset_base_def track_max_def split: option.splits)

lemma should_reset_last_prices:
  "should_reset_base symbol a now (track_max symbol pc now (st\<lparr>LAST_PRICES := x\<rparr>))
     = should_reset_base symbol a now (track_max symbol pc now st)"
  by (simp add: should_reset_after_track)

lemma max_after_track:
  "MAX_CHANGES (track_max symbol pc now st) symbol =
     (case MAX_CHANGES st symbol of
        None \<Rightarrow> Some \<lparr>max_pct = pc, mc_time = now\<rparr>
      | Some m \<Rightarrow> if \<bar>pc\<bar> > \<bar>max_pct m\<bar> then Some \<lparr>max_pct = pc, mc_time = now\<rparr> else Some m)"
  by (simp add: track_max_def split: option.splits)

lemma lsc_after_track:
  "LAST_SIGNIFICANT_CHANGE (track_max symbol pc now st) symbol =
     (case MAX_CHANGES st symbol of
        None \<Rightarrow> LAST_SIGNIFICANT_CHANGE st symbol
      | Some m \<Rightarrow> if \<bar>pc\<bar> > \<bar>max_pct m\<bar> then Some now else LAST_SIGNIFICANT_CHANGE st symbol)"
  by (simp add: track_max_def split: option.splits)

lemma extreme_qualifies: "\<bar>pc\<bar> \<ge> 10 \<Longrightarrow> (pc::real) \<ge> 3 \<or> pc \<le> - 3"
  by arith

lemma state_after_tracking:
  assumes "td_symbol td = Some symbol" "symbol \<noteq> []"
    and "current_price_of td = Some price" "volume_usdt_of td = Some turnover"
    and "0 < price" "MIN_VOL_THRESHOLD \<le> turnover"
    and "BASE_PRICES st symbol = Some base" "base \<noteq> 0"
    and "pc = (price - base) / base * 100"
    and "r = process_ticker CHANNEL_ID now td st"
    and "st2 = track_max symbol pc now st"
    and "reset = should_reset_base symbol \<bar>pc\<bar> now st2"
    and "extreme = (\<bar>pc\<bar> \<ge> 10 \<and> sent r \<noteq> [])"
  shows "BASE_PRICES (state_after r) symbol = Some (if reset \<or> extreme then price else base)"
    and "MAX_CHANGES (state_after r) symbol =
           (if reset \<or> extreme then Some \<lparr>max_pct = 0, mc_time = now\<rparr> else MAX_CHANGES st2 symbol)"
    and "LAST_SIGNIFICANT_CHANGE (state_after r) symbol = LAST_SIGNIFICANT_CHANGE st2 symbol"
proof -
  have q: "pc \<ge> 3 \<or> pc \<le> - 3" if "\<bar>pc\<bar> \<ge> 10"
    using that by (rule extreme_qualifies)
  have t: "track_max symbol pc now (st\<lparr>LAST_PRICES := x\<rparr>) = (track_max symbol pc now st)\<lparr>LAST_PRICES := x\<rparr>" for x
    by (simp add: track_max_def split: option.splits)
  have sr: "should_reset_base symbol a now (s\<lparr>LAST_PRICES := x\<rparr>) = should_reset_base symbol a now s" for a x s
    by (simp add: should_reset_base_def)
  note u = process_ticker_tracking[OF assms(1-8), of CHANNEL_ID now, folded assms(9)]
  show "BASE_PRICES (state_after r) symbol = Some (if reset \<or> extreme then price else base)"
    unfolding assms(13) assms(12) assms(11) assms(10) u
    using q assms(7)
    by (simp add: Let_def quiet_def thresholds t sr reset_base_def track_max_frame)
  show "MAX_CHANGES (state_after r) symbol =
           (if reset \<or> extreme then Some \<lparr>max_pct = 0, mc_time = now\<rparr> else MAX_CHANGES st2 symbol)"
    unfolding assms(13) assms(12) assms(11) assms(10) u
    using q
    by (simp add: Let_def quiet_def thresholds t sr reset_base_def)
  show "LAST_SIGNIFICANT_CHANGE (state_after r) symbol = LAST_SIGNIFICANT_CHANGE st2 symbol"
    unfolding assms(11) assms(10) u
    by (simp add: Let_def quiet_def thresholds t sr reset_base_def)
qed

section \<open>The base reset\<close>

text \<open>
  Claim C2, as the program has it. For a valid sample of a tracked instrument, the base
  price is reset to the sample's price and the extremum tracker is zeroed when
  \<open>|changePct| < 1.5\<close>, or when the sample is not a new extremum and more than 50
  seconds have passed since \<open>LAST_SIGNIFICANT_CHANGE\<close>. The reset is decided before the
  alert, and an alert emitted on the same sample carries the base price and the change
  from before the reset. A sample that is a new extremum is never stale: with
  \<open>|changePct| \<ge> 1.5\<close> it keeps the base price, however long ago the last significant
  change was, and leaves the tracker at \<open>changePct\<close> and \<open>LAST_SIGNIFICANT_CHANGE\<close> at
  the current time, unless the reset after an extreme alert applies. Together with that
  reset these are the only ways a tracked sample changes the base price.
\<close>

theorem base_reset_decision:
  assumes "td_symbol td = Some symbol" "symbol \<noteq> []"
    and "current_price_of td = Some price" "volume_usdt_of td = Some turnover"
    and "0 < price" "100000 \<le> turnover"
    and "BASE_PRICES st symbol = Some base" "base \<noteq> 0"
  shows "let changePct = (price - base) / base * 100;
             r = process_ticker CHANNEL_ID now td st;
             new_extremum = (case MAX_CHANGES st symbol of None \<Rightarrow> False
                             | Some m \<Rightarrow> \<bar>changePct\<bar> > \<bar>max_pct m\<bar>);
             stale = (case LAST_SIGNIFICANT_CHANGE st symbol of None \<Rightarrow> False
                      | Some t \<Rightarrow> now - t > 50);
             extreme_reset = (\<bar>changePct\<bar> \<ge> 10 \<and> sent r \<noteq> [])
         in (\<bar>changePct\<bar> < 1.5 \<or> (\<not> new_extremum \<and> stale) \<longrightarrow>
               BASE_PRICES (state_after r) symbol = Some price
             \<and> MAX_CHANGES (state_after r) symbol = Some \<lparr>max_pct = 0, mc_time = now\<rparr>)
          \<and> (changePct \<ge> 3 \<or> changePct \<le> - 3 \<longrightarrow>
               emitted r = Some (fmt_alert symbol base price changePct))
          \<and> (new_extremum \<and> \<bar>changePct\<bar> \<ge> 1.5 \<and> \<not> extreme_reset \<longrightarrow>
               BASE_PRICES (state_after r) symbol = Some base
             \<and> MAX_CHANGES (state_after r) symbol = Some \<lparr>max_pct = changePct, mc_time = now\<rparr>
             \<and> LAST_SIGNIFICANT_CHANGE (state_after r) symbol = Some now)
          \<and> (\<not> stale \<and> \<bar>changePct\<bar> \<ge> 1.5 \<and> \<not> extreme_reset \<longrightarrow>
               BASE_PRICES (state_after r) symbol = Some base)
          \<and> BASE_PRICES (state_after r) symbol =
               Some (if \<bar>changePct\<bar> < 1.5 \<or> (\<not> new_extremum \<and> stale) \<or> extreme_reset
                     then price else base)"
proof -
  have vol: "MIN_VOL_THRESHOLD \<le> turnover"
    using assms(6) by (simp add: MIN_VOL_THRESHOLD_def)
  note hyps = assms(1-5) vol assms(7,8)
  note f = state_after_tracking[OF hyps refl refl refl refl refl, of CHANNEL_ID now]
  note e = emitted_tracking[OF hyps, of CHANNEL_ID now]
  show ?thesis
    unfolding Let_def f e should_reset_after_track max_after_track lsc_after_track
    by (simp split: option.splits)
qed

theorem base_reset_decision_witness:
  "td_symbol \<lparr>td_symbol = Some ''BTC_USDT'', lastPrice = Number 104, amount24 = Number 250000, volume24 = Missing\<rparr> = Some ''BTC_USDT'' \<and> ''BTC_USDT'' \<noteq> []
    \<and> current_price_of \<lparr>td_symbol = Some ''BTC_USDT'', lastPrice = Number 104, amount24 = Number 250000, volume24 = Missing\<rparr> = Some 104 \<and> volume_usdt_of \<lparr>td_symbol = Some ''BTC_USDT'', lastPrice = Number 104, amount24 = Number 250000, volume24 = Missing\<rparr> = Some 250000
    \<and> current_price_of \<lparr>td_symbol = Some ''BTC_USDT'', lastPrice = Number 105, amount24 = Number 250000, volume24 = Missing\<rparr> = Some 105 \<and> volume_usdt_of \<lparr>td_symbol = Some ''BTC_USDT'', lastPrice = Number 105, amount24 = Number 250000, volume24 = Missing\<rparr> = Some 250000
    \<and> (0::real) < 104 \<and> (0::real) < 105 \<and> (100000::real) \<le> 250000
    \<and> BASE_PRICES \<lparr>SUBSCRIBERS = [], ALERT_MODE = Map.empty, MUTED_COINS = Map.empty,
       LAST_PRICES = [(''BTC_USDT'', \<lparr>lp_price = 100 + 4, lp_time = 0\<rparr>)],
       BASE_PRICES = [''BTC_USDT'' \<mapsto> 100], ALERTED_SYMBOLS = Map.empty,
       MAX_CHANGES = [''BTC_USDT'' \<mapsto> \<lparr>max_pct = 4, mc_time = 0\<rparr>],
       LAST_SIGNIFICANT_CHANGE = [''BTC_USDT'' \<mapsto> 0]\<rparr> ''BTC_USDT'' = Some 100 \<and> (100::real) \<noteq> 0
    \<and> BASE_PRICES (state_after (process_ticker None 60 \<lparr>td_symbol = Some ''BTC_USDT'', lastPrice = Number 104, amount24 = Number 250000, volume24 = Missing\<rparr> \<lparr>SUBSCRIBERS = [], ALERT_MODE = Map.empty, MUTED_COINS = Map.empty,
       LAST_PRICES = [(''BTC_USDT'', \<lparr>lp_price = 100 + 4, lp_time = 0\<rparr>)],
       BASE_PRICES = [''BTC_USDT'' \<mapsto> 100], ALERTED_SYMBOLS = Map.empty,
       MAX_CHANGES = [''BTC_USDT'' \<mapsto> \<lparr>max_pct = 4, mc_time = 0\<rparr>],
       LAST_SIGNIFICANT_CHANGE = [''BTC_USDT'' \<mapsto> 0]\<rparr>)) ''BTC_USDT'' = Some 104
    \<and> MAX_CHANGES (state_after (process_ticker None 60 \<lparr>td_symbol = Some ''BTC_USDT'', lastPrice = Number 104, amount24 = Number 250000, volume24 = Missing\<rparr> \<lparr>SUBSCRIBERS = [], ALERT_MODE = Map.empty, MUTED_COINS = Map.empty,
       LAST_PRICES = [(''BTC_USDT'', \<lparr>lp_price = 100 + 4, lp_time = 0\<rparr>)],
       BASE_PRICES = [''BTC_USDT'' \<mapsto> 100], ALERTED_SYMBOLS = Map.empty,
       MAX_CHANGES = [''BTC_USDT'' \<mapsto> \<lparr>max_pct = 4, mc_time = 0\<rparr>],
       LAST_SIGNIFICANT_CHANGE = [''BTC_USDT'' \<mapsto> 0]\<rparr>)) ''BTC_USDT''
        = Some \<lparr>max_pct = 0, mc_time = 60\<rparr>
    \<and> emitted (process_ticker None 60 \<lparr>td_symbol = Some ''BTC_USDT'', lastPrice = Number 104, amount24 = Number 250000, volume24 = Missing\<rparr> \<lparr>SUBSCRIBERS = [], ALERT_MODE = Map.empty, MUTED_COINS = Map.empty,
       LAST_PRICES = [(''BTC_USDT'', \<lparr>lp_price = 100 + 4, lp_time = 0\<rparr>)],
       BASE_PRICES = [''BTC_USDT'' \<mapsto> 100], ALERTED_SYMBOLS = Map.empty,
       MAX_CHANGES = [''BTC_USDT'' \<mapsto> \<lparr>max_pct = 4, mc_time = 0\<rparr>],
       LAST_SIGNIFICANT_CHANGE = [''BTC_USDT'' \<mapsto> 0]\<rparr>) = Some (fmt_alert ''BTC_USDT'' 100 104 4)
    \<and> BASE_PRICES (state_after (process_ticker None 60 \<lparr>td_symbol = Some ''BTC_USDT'', lastPrice = Number 105, amount24 = Number 250000, volume24 = Missing\<rparr> \<lparr>SUBSCRIBERS = [], ALERT_MODE = Map.empty, MUTED_COINS = Map.empty,
       LAST_PRICES = [(''BTC_USDT'', \<lparr>lp_price = 100 + 4, lp_time = 0\<rparr>)],
       BASE_PRICES = [''BTC_USDT'' \<mapsto> 100], ALERTED_SYMBOLS = Map.empty,
       MAX_CHANGES = [''BTC_USDT'' \<mapsto> \<lparr>max_pct = 4, mc_time = 0\<rparr>],
       LAST_SIGNIFICANT_CHANGE = [''BTC_USDT'' \<mapsto> 0]\<rparr>)) ''BTC_USDT'' = Some 100
    \<and> MAX_CHANGES (state_after (process_ticker None 60 \<lparr>td_symbol = Some ''BTC_USDT'', lastPrice = Number 105, amount24 = Number 250000, volume24 = Missing\<rparr> \<lparr>SUBSCRIBERS = [], ALERT_MODE = Map.empty, MUTED_COINS = Map.empty,
       LAST_PRICES = [(''BTC_USDT'', \<lparr>lp_price = 100 + 4, lp_time = 0\<rparr>)],
       BASE_PRICES = [''BTC_USDT'' \<mapsto> 100], ALERTED_SYMBOLS = Map.empty,
       MAX_CHANGES = [''BTC_USDT'' \<mapsto> \<lparr>max_pct = 4, mc_time = 0\<rparr>],
       LAST_SIGNIFICANT_CHANGE = [''BTC_USDT'' \<mapsto> 0]\<rparr>)) ''BTC_USDT''
        = Some \<lparr>max_pct = 5, mc_time = 60\<rparr>
    \<and> LAST_SIGNIFICANT_CHANGE (state_after (process_ticker None 60 \<lparr>td_symbol = Some ''BTC_USDT'', lastPrice = Number 105, amount24 = Number 250000, volume24 = Missing\<rparr> \<lparr>SUBSCRIBERS = [], ALERT_MODE = Map.empty, MUTED_COINS = Map.empty,
       LAST_PRICES = [(''BTC_USDT'', \<lparr>lp_price = 100 + 4, lp_time = 0\<rparr>)],
       BASE_PRICES = [''BTC_USDT'' \<mapsto> 100], ALERTED_SYMBOLS = Map.empty,
       MAX_CHANGES = [''BTC_USDT'' \<mapsto> \<lparr>max_pct = 4, mc_time = 0\<rparr>],
       LAST_SIGNIFICANT_CHANGE = [''BTC_USDT'' \<mapsto> 0]\<rparr>)) ''BTC_USDT''
        = Some 60"
  using base_reset_decision[of "\<lparr>td_symbol = Some ''BTC_USDT'', lastPrice = Number 104, amount24 = Number 250000, volume24 = Missing\<rparr>" "''BTC_USDT''" 104 250000 "\<lparr>SUBSCRIBERS = [], ALERT_MODE = Map.empty, MUTED_COINS = Map.empty,
       LAST_PRICES = [(''BTC_USDT'', \<lparr>lp_price = 100 + 4, lp_time = 0\<rparr>)],
       BASE_PRICES = [''BTC_USDT'' \<mapsto> 100], ALERTED_SYMBOLS = Map.empty,
       MAX_CHANGES = [''BTC_USDT'' \<mapsto> \<lparr>max_pct = 4, mc_time = 0\<rparr>],
       LAST_SIGNIFICANT_CHANGE = [''BTC_USDT'' \<mapsto> 0]\<rparr>" 100 None 60]
    base_reset_decision[of "\<lparr>td_symbol = Some ''BTC_USDT'', lastPrice = Number 105, amount24 = Number 250000, volume24 = Missing\<rparr>" "''BTC_USDT''" 105 250000 "\<lparr>SUBSCRIBERS = [], ALERT_MODE = Map.empty, MUTED_COINS = Map.empty,
       LAST_PRICES = [(''BTC_USDT'', \<lparr>lp_price = 100 + 4, lp_time = 0\<rparr>)],
       BASE_PRICES = [''BTC_USDT'' \<mapsto> 100], ALERTED_SYMBOLS = Map.empty,
       MAX_CHANGES = [''BTC_USDT'' \<mapsto> \<lparr>max_pct = 4, mc_time = 0\<rparr>],
       LAST_SIGNIFICANT_CHANGE = [''BTC_USDT'' \<mapsto> 0]\<rparr>" 100 None 60]
  by (simp add: Let_def model_defs)

text \<open>
  The claim as written, with the staleness measured against the recorded
  \<open>LAST_SIGNIFICANT_CHANGE\<close> alone, fails: 60 seconds after the last significant change
  a sample at +5 percent, beyond the recorded extremum of 2.5 percent, leaves the base
  price at 100 and the tracker at 5 percent. The state is the one three earlier samples
  (100, 102, 102.5) produce from the initial state.
\<close>

theorem stale_reset_counterexample:
  "LAST_SIGNIFICANT_CHANGE \<lparr>SUBSCRIBERS = [], ALERT_MODE = Map.empty, MUTED_COINS = Map.empty,
       LAST_PRICES = [(''BTC_USDT'', \<lparr>lp_price = 102.5, lp_time = 0\<rparr>)],
       BASE_PRICES = [''BTC_USDT'' \<mapsto> 100], ALERTED_SYMBOLS = Map.empty,
       MAX_CHANGES = [''BTC_USDT'' \<mapsto> \<lparr>max_pct = 2.5, mc_time = 0\<rparr>],
       LAST_SIGNIFICANT_CHANGE = [''BTC_USDT'' \<mapsto> 0]\<rparr> ''BTC_USDT'' = Some 0 \<and> (60::real) - 0 > 50
 \<and> BASE_PRICES (state_after (process_ticker None 60 \<lparr>td_symbol = Some ''BTC_USDT'', lastPrice = Number 105, amount24 = Number 250000, volume24 = Missing\<rparr> \<lparr>SUBSCRIBERS = [], ALERT_MODE = Map.empty, MUTED_COINS = Map.empty,
       LAST_PRICES = [(''BTC_USDT'', \<lparr>lp_price = 102.5, lp_time = 0\<rparr>)],
       BASE_PRICES = [''BTC_USDT'' \<mapsto> 100], ALERTED_SYMBOLS = Map.empty,
       MAX_CHANGES = [''BTC_USDT'' \<mapsto> \<lparr>max_pct = 2.5, mc_time = 0\<rparr>],
       LAST_SIGNIFICANT_CHANGE = [''BTC_USDT'' \<mapsto> 0]\<rparr>)) ''BTC_USDT'' = Some 100
 \<and> MAX_CHANGES (state_after (process_ticker None 60 \<lparr>td_symbol = Some ''BTC_USDT'', lastPrice = Number 105, amount24 = Number 250000, volume24 = Missing\<rparr> \<lparr>SUBSCRIBERS = [], ALERT_MODE = Map.empty, MUTED_COINS = Map.empty,
       LAST_PRICES = [(''BTC_USDT'', \<lparr>lp_price = 102.5, lp_time = 0\<rparr>)],
       BASE_PRICES = [''BTC_USDT'' \<mapsto> 100], ALERTED_SYMBOLS = Map.empty,
       MAX_CHANGES = [''BTC_USDT'' \<mapsto> \<lparr>max_pct = 2.5, mc_time = 0\<rparr>],
       LAST_SIGNIFICANT_CHANGE = [''BTC_USDT'' \<mapsto> 0]\<rparr>)) ''BTC_USDT''
     = Some \<lparr>max_pct = 5, mc_time = 60\<rparr>"
  by (simp add: model_defs)

lemma stale_state_reachable:
  "state_after (process_ticker None 0 \<lparr>td_symbol = Some ''BTC_USDT'', lastPrice = Number 102.5, amount24 = Number 250000, volume24 = Missing\<rparr>
     (state_after (process_ticker None (- 10) \<lparr>td_symbol = Some ''BTC_USDT'', lastPrice = Number 102, amount24 = Number 250000, volume24 = Missing\<rparr>
       (state_after (process_ticker None (- 20) \<lparr>td_symbol = Some ''BTC_USDT'', lastPrice = Number 100, amount24 = Number 250000, volume24 = Missing\<rparr> initial_state)))))
   = \<lparr>SUBSCRIBERS = [], ALERT_MODE = Map.empty, MUTED_COINS = Map.empty,
       LAST_PRICES = [(''BTC_USDT'', \<lparr>lp_price = 102.5, lp_time = 0\<rparr>)],
       BASE_PRICES = [''BTC_USDT'' \<mapsto> 100], ALERTED_SYMBOLS = Map.empty,
       MAX_CHANGES = [''BTC_USDT'' \<mapsto> \<lparr>max_pct = 2.5, mc_time = 0\<rparr>],
       LAST_SIGNIFICANT_CHANGE = [''BTC_USDT'' \<mapsto> 0]\<rparr>"
  by (simp add: model_defs)

section \<open>The extremum tracker\<close>

lemma first_sample_state:
  assumes "td_symbol td = Some symbol" "symbol \<noteq> []"
    and "current_price_of td = Some price" "volume_usdt_of td = Some turnover"
    and "0 < price" "MIN_VOL_THRESHOLD \<le> turnover"
    and "BASE_PRICES st symbol = None"
  shows "state_after (process_ticker CHANNEL_ID now td st) =
     st\<lparr>LAST_PRICES := AList.update symbol \<lparr>lp_price = price, lp_time = now\<rparr> (LAST_PRICES st),
        BASE_PRICES := (BASE_PRICES st)(symbol \<mapsto> price)\<rparr>"
  using assms unfolding process_ticker_def
  by (simp add: quiet_def Let_def not_le not_less)

text \<open>
  Claim C4, as the program has it. The first valid sample of an instrument creates no
  extremum tracker. The next valid sample creates it, stamped with the current time and
  holding that sample's change. Once the tracker exists, a valid sample whose
  \<open>|changePct|\<close> exceeds the recorded \<open>|max_pct|\<close> sets \<open>max_pct\<close> to \<open>changePct\<close>,
  the tracker's time to the current time and \<open>LAST_SIGNIFICANT_CHANGE\<close> to the current
  time. In both cases \<open>max_pct\<close> ends the call at 0 instead when the same sample resets
  the base: when \<open>|changePct| < 1.5\<close>, or after an extreme alert that was sent to
  somebody.
\<close>

theorem tracker_update:
  assumes "td_symbol td = Some symbol" "symbol \<noteq> []"
    and "current_price_of td = Some price" "volume_usdt_of td = Some turnover"
    and "0 < price" "100000 \<le> turnover"
  shows "let r = process_ticker CHANNEL_ID now td st in
     (BASE_PRICES st symbol = None \<longrightarrow> MAX_CHANGES (state_after r) symbol = MAX_CHANGES st symbol)
   \<and> (\<forall>base. BASE_PRICES st symbol = Some base \<and> base \<noteq> 0 \<longrightarrow>
        (let changePct = (price - base) / base * 100;
             zeroed = (\<bar>changePct\<bar> < 1.5 \<or> (\<bar>changePct\<bar> \<ge> 10 \<and> sent r \<noteq> []))
         in (MAX_CHANGES st symbol = None \<and> LAST_SIGNIFICANT_CHANGE st symbol = None \<longrightarrow>
               MAX_CHANGES (state_after r) symbol
                 = Some \<lparr>max_pct = (if zeroed then 0 else changePct), mc_time = now\<rparr>)
          \<and> (\<forall>m. MAX_CHANGES st symbol = Some m \<and> \<bar>changePct\<bar> > \<bar>max_pct m\<bar> \<longrightarrow>
               MAX_CHANGES (state_after r) symbol
                 = Some \<lparr>max_pct = (if zeroed then 0 else changePct), mc_time = now\<rparr>
             \<and> LAST_SIGNIFICANT_CHANGE (state_after r) symbol = Some now)))"
proof -
  have vol: "MIN_VOL_THRESHOLD \<le> turnover"
    using assms(6) by (simp add: MIN_VOL_THRESHOLD_def)
  note valid = assms(1-5) vol
  have a: "MAX_CHANGES (state_after (process_ticker CHANNEL_ID now td st)) symbol = MAX_CHANGES st symbol"
    if "BASE_PRICES st symbol = None"
    by (simp add: first_sample_state[OF valid that])
  have b: "MAX_CHANGES (state_after (process_ticker CHANNEL_ID now td st)) symbol
        = Some \<lparr>max_pct = (if \<bar>(price - base) / base * 100\<bar> < 1.5
                   \<or> (\<bar>(price - base) / base * 100\<bar> \<ge> 10 \<and> sent (process_ticker CHANNEL_ID now td st) \<noteq> [])
                 then 0 else (price - base) / base * 100), mc_time = now\<rparr>"
    if "BASE_PRICES st symbol = Some base" "base \<noteq> 0"
      "MAX_CHANGES st symbol = None" "LAST_SIGNIFICANT_CHANGE st symbol = None" for base
    unfolding state_after_tracking(2)[OF valid that(1,2) refl refl refl refl refl]
      should_reset_after_track max_after_track
    using that(3,4) by simp
  have c: "MAX_CHANGES (state_after (process_ticker CHANNEL_ID now td st)) symbol
        = Some \<lparr>max_pct = (if \<bar>(price - base) / base * 100\<bar> < 1.5
                   \<or> (\<bar>(price - base) / base * 100\<bar> \<ge> 10 \<and> sent (process_ticker CHANNEL_ID now td st) \<noteq> [])
                 then 0 else (price - base) / base * 100), mc_time = now\<rparr>
      \<and> LAST_SIGNIFICANT_CHANGE (state_after (process_ticker CHANNEL_ID now td st)) symbol = Some now"
    if "BASE_PRICES st symbol = Some base" "base \<noteq> 0"
      "MAX_CHANGES st symbol = Some m" "\<bar>(price - base) / base * 100\<bar> > \<bar>max_pct m\<bar>" for base m
    unfolding state_after_tracking(2,3)[OF valid that(1,2) refl refl refl refl refl]
      should_reset_after_track max_after_track lsc_after_track
    using that(3,4) by simp
  show ?thesis
    unfolding Let_def using a b c by blast
qed

theorem tracker_update_witness:
  "td_symbol \<lparr>td_symbol = Some ''BTC_USDT'', lastPrice = Number 105, amount24 = Number 250000, volume24 = Missing\<rparr> = Some ''BTC_USDT'' \<and> ''BTC_USDT'' \<noteq> []
    \<and> current_price_of \<lparr>td_symbol = Some ''BTC_USDT'', lastPrice = Number 105, amount24 = Number 250000, volume24 = Missing\<rparr> = Some 105 \<and> volume_usdt_of \<lparr>td_symbol = Some ''BTC_USDT'', lastPrice = Number 105, amount24 = Number 250000, volume24 = Missing\<rparr> = Some 250000
    \<and> (0::real) < 105 \<and> (100000::real) \<le> 250000
    \<and> BASE_PRICES \<lparr>SUBSCRIBERS = [], ALERT_MODE = Map.empty, MUTED_COINS = Map.empty,
       LAST_PRICES = [(''BTC_USDT'', \<lparr>lp_price = 102.5, lp_time = 0\<rparr>)],
       BASE_PRICES = [''BTC_USDT'' \<mapsto> 100], ALERTED_SYMBOLS = Map.empty,
       MAX_CHANGES = [''BTC_USDT'' \<mapsto> \<lparr>max_pct = 2.5, mc_time = 0\<rparr>],
       LAST_SIGNIFICANT_CHANGE = [''BTC_USDT'' \<mapsto> 0]\<rparr> ''BTC_USDT'' = Some 100 \<and> (100::real) \<noteq> 0
    \<and> MAX_CHANGES \<lparr>SUBSCRIBERS = [], ALERT_MODE = Map.empty, MUTED_COINS = Map.empty,
       LAST_PRICES = [(''BTC_USDT'', \<lparr>lp_price = 102.5, lp_time = 0\<rparr>)],
       BASE_PRICES = [''BTC_USDT'' \<mapsto> 100], ALERTED_SYMBOLS = Map.empty,
       MAX_CHANGES = [''BTC_USDT'' \<mapsto> \<lparr>max_pct = 2.5, mc_time = 0\<rparr>],
       LAST_SIGNIFICANT_CHANGE = [''BTC_USDT'' \<mapsto> 0]\<rparr> ''BTC_USDT'' = Some \<lparr>max_pct = 2.5, mc_time = 0\<rparr>
    \<and> \<bar>(105 - 100) / 100 * 100 :: real\<bar> > \<bar>2.5\<bar>
    \<and> MAX_CHANGES (state_after (process_ticker None 60 \<lparr>td_symbol = Some ''BTC_USDT'', lastPrice = Number 105, amount24 = Number 250000, volume24 = Missing\<rparr> \<lparr>SUBSCRIBERS = [], ALERT_MODE = Map.empty, MUTED_COINS = Map.empty,
       LAST_PRICES = [(''BTC_USDT'', \<lparr>lp_price = 102.5, lp_time = 0\<rparr>)],
       BASE_PRICES = [''BTC_USDT'' \<mapsto> 100], ALERTED_SYMBOLS = Map.empty,
       MAX_CHANGES = [''BTC_USDT'' \<mapsto> \<lparr>max_pct = 2.5, mc_time = 0\<rparr>],
       LAST_SIGNIFICANT_CHANGE = [''BTC_USDT'' \<mapsto> 0]\<rparr>)) ''BTC_USDT''
        = Some \<lparr>max_pct = 5, mc_time = 60\<rparr>
    \<and> LAST_SIGNIFICANT_CHANGE (state_after (process_ticker None 60 \<lparr>td_symbol = Some ''BTC_USDT'', lastPrice = Number 105, amount24 = Number 250000, volume24 = Missing\<rparr> \<lparr>SUBSCRIBERS = [], ALERT_MODE = Map.empty, MUTED_COINS = Map.empty,
       LAST_PRICES = [(''BTC_USDT'', \<lparr>lp_price = 102.5, lp_time = 0\<rparr>)],
       BASE_PRICES = [''BTC_USDT'' \<mapsto> 100], ALERTED_SYMBOLS = Map.empty,
       MAX_CHANGES = [''BTC_USDT'' \<mapsto> \<lparr>max_pct = 2.5, mc_time = 0\<rparr>],
       LAST_SIGNIFICANT_CHANGE = [''BTC_USDT'' \<mapsto> 0]\<rparr>)) ''BTC_USDT'' = Some 60"
  using tracker_update[of "\<lparr>td_symbol = Some ''BTC_USDT'', lastPrice = Number 105, amount24 = Number 250000, volume24 = Missing\<rparr>" "''BTC_USDT''" 105 250000 None 60 "\<lparr>SUBSCRIBERS = [], ALERT_MODE = Map.empty, MUTED_COINS = Map.empty,
       LAST_PRICES = [(''BTC_USDT'', \<lparr>lp_price = 102.5, lp_time = 0\<rparr>)],
       BASE_PRICES = [''BTC_USDT'' \<mapsto> 100], ALERTED_SYMBOLS = Map.empty,
       MAX_CHANGES = [''BTC_USDT'' \<mapsto> \<lparr>max_pct = 2.5, mc_time = 0\<rparr>],
       LAST_SIGNIFICANT_CHANGE = [''BTC_USDT'' \<mapsto> 0]\<rparr>"]
  by (simp add: Let_def model_defs)

text \<open>
  The claim as written fails: after the first valid sample there is no tracker, and the
  second sample, at +2 percent, creates the tracker holding 2 percent without recording
  \<open>LAST_SIGNIFICANT_CHANGE\<close>.
\<close>

theorem tracker_init_counterexample:
  "MAX_CHANGES (state_after (process_ticker None 0 \<lparr>td_symbol = Some ''BTC_USDT'', lastPrice = Number 100, amount24 = Number 250000, volume24 = Missing\<rparr> initial_state)) ''BTC_USDT'' = None
 \<and> MAX_CHANGES (state_after (process_ticker None 1 \<lparr>td_symbol = Some ''BTC_USDT'', lastPrice = Number 102, amount24 = Number 250000, volume24 = Missing\<rparr>
      (state_after (process_ticker None 0 \<lparr>td_symbol = Some ''BTC_USDT'', lastPrice = Number 100, amount24 = Number 250000, volume24 = Missing\<rparr> initial_state)))) ''BTC_USDT''
     = Some \<lparr>max_pct = 2, mc_time = 1\<rparr>
 \<and> LAST_SIGNIFICANT_CHANGE (state_after (process_ticker None 1 \<lparr>td_symbol = Some ''BTC_USDT'', lastPrice = Number 102, amount24 = Number 250000, volume24 = Missing\<rparr>
      (state_after (process_ticker None 0 \<lparr>td_symbol = Some ''BTC_USDT'', lastPrice = Number 100, amount24 = Number 250000, volume24 = Missing\<rparr> initial_state)))) ''BTC_USDT'' = None"
  by (simp add: model_defs)

section \<open>The reset after an extreme alert\<close>

text \<open>
  Claim C5, as the program has it. When a sample emits an extreme alert
  (\<open>|changePct| \<ge> 10\<close>) and the alert has at least one recipient (the channel or a
  subscriber the filter lets through), the base price is reset to the sample's price and
  the tracker is zeroed once the sends have been awaited, so the change of the next
  sample is computed against the new price.
\<close>

theorem extreme_reset:
  assumes "td_symbol td = Some symbol" "symbol \<noteq> []"
    and "current_price_of td = Some price" "volume_usdt_of td = Some turnover"
    and "0 < price" "100000 \<le> turnover"
    and "BASE_PRICES st symbol = Some base" "base \<noteq> 0"
    and "\<bar>(price - base) / base * 100\<bar> \<ge> 10"
    and "sent (process_ticker CHANNEL_ID now td st) \<noteq> []"
  shows "let r = process_ticker CHANNEL_ID now td st in
       emitted r = Some (fmt_alert symbol base price ((price - base) / base * 100))
     \<and> al_severity (fmt_alert symbol base price ((price - base) / base * 100)) = EXTREME
     \<and> BASE_PRICES (state_after r) symbol = Some price
     \<and> MAX_CHANGES (state_after r) symbol = Some \<lparr>max_pct = 0, mc_time = now\<rparr>
     \<and> (\<forall>td' price' turnover' now'.
          td_symbol td' = Some symbol \<and> current_price_of td' = Some price'
          \<and> volume_usdt_of td' = Some turnover' \<and> 0 < price' \<and> 100000 \<le> turnover' \<longrightarrow>
          emitted (process_ticker CHANNEL_ID now' td' (state_after r)) =
            (if (price' - price) / price * 100 \<ge> 3 \<or> (price' - price) / price * 100 \<le> - 3
             then Some (fmt_alert symbol price price' ((price' - price) / price * 100))
             else None))"
proof -
  have vol: "MIN_VOL_THRESHOLD \<le> turnover"
    using assms(6) by (simp add: MIN_VOL_THRESHOLD_def)
  note hyps = assms(1-5) vol assms(7,8)
  have q: "(price - base) / base * 100 \<ge> 3 \<or> (price - base) / base * 100 \<le> - 3"
    using assms(9) by (rule extreme_qualifies)
  have em: "emitted (process_ticker CHANNEL_ID now td st)
      = Some (fmt_alert symbol base price ((price - base) / base * 100))"
    unfolding emitted_tracking[OF hyps] using q by simp
  have sev: "al_severity (fmt_alert symbol base price ((price - base) / base * 100)) = EXTREME"
    using assms(9) by (simp add: fmt_alert_def EXTREME_THRESHOLD_def)
  have b: "BASE_PRICES (state_after (process_ticker CHANNEL_ID now td st)) symbol = Some price"
    unfolding state_after_tracking(1)[OF hyps refl refl refl refl refl]
    using assms(9,10) by simp
  have m: "MAX_CHANGES (state_after (process_ticker CHANNEL_ID now td st)) symbol
      = Some \<lparr>max_pct = 0, mc_time = now\<rparr>"
    unfolding state_after_tracking(2)[OF hyps refl refl refl refl refl]
    using assms(9,10) by simp
  have p0: "price \<noteq> 0" using assms(5) by simp
  have n: "emitted (process_ticker CHANNEL_ID now' td' (state_after (process_ticker CHANNEL_ID now td st))) =
            (if (price' - price) / price * 100 \<ge> 3 \<or> (price' - price) / price * 100 \<le> - 3
             then Some (fmt_alert symbol price price' ((price' - price) / price * 100))
             else None)"
    if "td_symbol td' = Some symbol" "current_price_of td' = Some price'"
      "volume_usdt_of td' = Some turnover'" "0 < price'" "100000 \<le> turnover'"
    for td' price' turnover' now'
  proof -
    have vol': "MIN_VOL_THRESHOLD \<le> turnover'"
      using that(5) by (simp add: MIN_VOL_THRESHOLD_def)
    show ?thesis
      by (rule emitted_tracking[OF that(1) assms(2) that(2,3,4) vol' b p0])
  qed
  show ?thesis
    unfolding Let_def using em sev b m n by blast
qed

theorem extreme_reset_witness:
  "td_symbol \<lparr>td_symbol = Some ''BTC_USDT'', lastPrice = Number 88, amount24 = Number 250000, volume24 = Missing\<rparr> = Some ''BTC_USDT'' \<and> ''BTC_USDT'' \<noteq> []
    \<and> current_price_of \<lparr>td_symbol = Some ''BTC_USDT'', lastPrice = Number 88, amount24 = Number 250000, volume24 = Missing\<rparr> = Some 88 \<and> volume_usdt_of \<lparr>td_symbol = Some ''BTC_USDT'', lastPrice = Number 88, amount24 = Number 250000, volume24 = Missing\<rparr> = Some 250000
    \<and> (0::real) < 88 \<and> (100000::real) \<le> 250000
    \<and> BASE_PRICES (state_after (process_ticker None 0 \<lparr>td_symbol = Some ''BTC_USDT'', lastPrice = Number 100, amount24 = Number 250000, volume24 = Missing\<rparr> initial_state)) ''BTC_USDT'' = Some 100 \<and> (100::real) \<noteq> 0
    \<and> \<bar>(88 - 100) / 100 * 100 :: real\<bar> \<ge> 10
    \<and> sent (process_ticker (Some ''@channel'') 1 \<lparr>td_symbol = Some ''BTC_USDT'', lastPrice = Number 88, amount24 = Number 250000, volume24 = Missing\<rparr> (state_after (process_ticker None 0 \<lparr>td_symbol = Some ''BTC_USDT'', lastPrice = Number 100, amount24 = Number 250000, volume24 = Missing\<rparr> initial_state))) \<noteq> []
    \<and> BASE_PRICES (state_after (process_ticker (Some ''@channel'') 1 \<lparr>td_symbol = Some ''BTC_USDT'', lastPrice = Number 88, amount24 = Number 250000, volume24 = Missing\<rparr> (state_after (process_ticker None 0 \<lparr>td_symbol = Some ''BTC_USDT'', lastPrice = Number 100, amount24 = Number 250000, volume24 = Missing\<rparr> initial_state)))) ''BTC_USDT'' = Some 88
    \<and> MAX_CHANGES (state_after (process_ticker (Some ''@channel'') 1 \<lparr>td_symbol = Some ''BTC_USDT'', lastPrice = Number 88, amount24 = Number 250000, volume24 = Missing\<rparr> (state_after (process_ticker None 0 \<lparr>td_symbol = Some ''BTC_USDT'', lastPrice = Number 100, amount24 = Number 250000, volume24 = Missing\<rparr> initial_state)))) ''BTC_USDT''
        = Some \<lparr>max_pct = 0, mc_time = 1\<rparr>"
  using extreme_reset[of "\<lparr>td_symbol = Some ''BTC_USDT'', lastPrice = Number 88, amount24 = Number 250000, volume24 = Missing\<rparr>" "''BTC_USDT''" 88 250000 "(state_after (process_ticker None 0 \<lparr>td_symbol = Some ''BTC_USDT'', lastPrice = Number 100, amount24 = Number 250000, volume24 = Missing\<rparr> initial_state))" 100 "Some ''@channel''" 1]
  by (simp add: Let_def model_defs)

text \<open>
  The claim as written fails when nobody receives the alert: with no channel and no
  subscriber, a sample at 88 against a base of 100 emits an extreme alert and leaves the
  base at 100; the next sample at 88 is again 12 percent below the base.
\<close>

theorem extreme_reset_counterexample:
  "emitted (process_ticker None 1 \<lparr>td_symbol = Some ''BTC_USDT'', lastPrice = Number 88, amount24 = Number 250000, volume24 = Missing\<rparr> (state_after (process_ticker None 0 \<lparr>td_symbol = Some ''BTC_USDT'', lastPrice = Number 100, amount24 = Number 250000, volume24 = Missing\<rparr> initial_state)))
     = Some \<lparr>al_symbol = ''BTC_USDT'', old_price = 100, new_price = 88, change_pct = - 12,
              al_severity = EXTREME, green = False\<rparr>
 \<and> sent (process_ticker None 1 \<lparr>td_symbol = Some ''BTC_USDT'', lastPrice = Number 88, amount24 = Number 250000, volume24 = Missing\<rparr> (state_after (process_ticker None 0 \<lparr>td_symbol = Some ''BTC_USDT'', lastPrice = Number 100, amount24 = Number 250000, volume24 = Missing\<rparr> initial_state))) = []
 \<and> BASE_PRICES (state_after (process_ticker None 1 \<lparr>td_symbol = Some ''BTC_USDT'', lastPrice = Number 88, amount24 = Number 250000, volume24 = Missing\<rparr> (state_after (process_ticker None 0 \<lparr>td_symbol = Some ''BTC_USDT'', lastPrice = Number 100, amount24 = Number 250000, volume24 = Missing\<rparr> initial_state)))) ''BTC_USDT'' = Some 100
 \<and> emitted (process_ticker None 2 \<lparr>td_symbol = Some ''BTC_USDT'', lastPrice = Number 88, amount24 = Number 250000, volume24 = Missing\<rparr> (state_after (process_ticker None 1 \<lparr>td_symbol = Some ''BTC_USDT'', lastPrice = Number 88, amount24 = Number 250000, volume24 = Missing\<rparr> (state_after (process_ticker None 0 \<lparr>td_symbol = Some ''BTC_USDT'', lastPrice = Number 100, amount24 = Number 250000, volume24 = Missing\<rparr> initial_state)))))
     = Some \<lparr>al_symbol = ''BTC_USDT'', old_price = 100, new_price = 88, change_pct = - 12,
              al_severity = EXTREME, green = False\<rparr>"
  by (simp add: model_defs)

end
